theory Spec2Isabelle
  imports Main
begin

section \<open>Data model of \<open>fastly/kv_store.go\<close>\<close>

text \<open>
  Go strings are byte sequences and are modelled as \<open>string\<close>. A Go \<open>int\<close> is modelled as
  \<open>int\<close>: the code only compares \<open>Limit\<close> and \<open>StatusCode\<close> with constants and renders
  \<open>Limit\<close> in decimal, it performs no arithmetic on them. A \<open>*time.Time\<close> is an optional
  opaque time stamp. Several structs share field names (\<open>ID\<close>, \<open>Key\<close>, \<open>Cursor\<close>, \<open>Limit\<close>,
  \<open>Name\<close>); the fields are always written qualified by their struct.
\<close>

type_synonym time = int

record KVStore =
  CreatedAt :: "time option"
  ID :: string
  Name :: string
  UpdatedAt :: "time option"

record CreateKVStoreInput =
  Name :: string

record ListKVStoresInput =
  Cursor :: string
  Limit :: int

text \<open>
  A Go \<open>map[string]string\<close> is a partial map; the nil map reads like the empty one.
  A slice is a list; the nil slice is the empty list.
\<close>

record ListKVStoresResponse =
  Data :: "KVStore list"
  Meta :: "string \<rightharpoonup> string"

record GetKVStoreInput =
  ID :: string

record DeleteKVStoreInput =
  ID :: string

record ListKVStoreKeysInput =
  Cursor :: string
  ID :: string
  Limit :: int

record ListKVStoreKeysResponse =
  Data :: "string list"
  Meta :: "string \<rightharpoonup> string"

record GetKVStoreKeyInput =
  ID :: string
  Key :: string

record InsertKVStoreKeyInput =
  ID :: string
  Key :: string
  Value :: string

record DeleteKVStoreKeyInput =
  ID :: string
  Key :: string

subsection \<open>The HTTP collaborator\<close>

text \<open>
  The body of an \<open>http.Response\<close> is an \<open>io.Reader\<close>: reading it to the end either yields
  its bytes or fails with an I/O error.
\<close>

datatype reader = Reader string | BrokenReader string

record Response =
  StatusCode :: int
  Body :: reader

text \<open>
  The \<open>error\<close> values the code handles: the three package-level validation errors, the
  error built by \<open>NewHTTPError\<close> from a response, and any other error, which the code only
  passes on (transport, decoding and I/O errors).
\<close>

datatype error =
    ErrMissingName
  | ErrMissingID
  | ErrMissingKey
  | HTTPError Response
  | OtherError string

text \<open>
  Modelled from the spec: \<open>NewHTTPError\<close> (declared outside \<open>kv_store.go\<close>), ``an error
  constructor that wraps a non-success HTTP response into a structured error exposing
  status code and body''.
\<close>

definition NewHTTPError :: "Response \<Rightarrow> error" where
  "NewHTTPError resp = HTTPError resp"

fun HTTPError_StatusCode :: "error \<Rightarrow> int option" where
  "HTTPError_StatusCode (HTTPError resp) = Some (StatusCode resp)"
| "HTTPError_StatusCode _ = None"

text \<open>\<open>http.StatusNoContent\<close> of the standard library.\<close>

definition StatusNoContent :: int where
  "StatusNoContent = 204"

text \<open>
  \<open>RequestOptions\<close>: only the two fields that \<open>kv_store.go\<close> sets. \<open>Body\<close> is \<open>None\<close> for
  the nil reader and \<open>Some v\<close> for \<open>io.NopCloser(strings.NewReader(v))\<close>, the reader that
  yields exactly the bytes of \<open>v\<close>.
\<close>

record RequestOptions =
  Params :: "string \<rightharpoonup> string"
  Body :: "string option"

text \<open>
  The methods of \<open>*Client\<close> that \<open>kv_store.go\<close> calls are declared outside this file; each
  invocation is a value of \<open>call\<close> with the arguments the source passes: the path, for
  \<open>PostJSON\<close> the value to encode, and the (possibly nil) request options.
\<close>

datatype call =
    Get string "RequestOptions option"
  | PostJSON string CreateKVStoreInput "RequestOptions option"
  | Put string "RequestOptions option"
  | Delete string "RequestOptions option"

text \<open>
  The client is a parameter of the model: a transport that answers a call from its own
  state with an error or a response, that state, and the log of the calls made so far
  (a transport that was never invoked leaves state and log as they were).
\<close>

record 's Client =
  transport :: "call \<Rightarrow> 's \<Rightarrow> (error + Response) \<times> 's"
  tstate :: 's
  calls :: "call list"

definition Client_Request :: "'s Client \<Rightarrow> call \<Rightarrow> (error + Response) \<times> 's Client" where
  "Client_Request c k =
     (case transport c k (tstate c) of
        (r, s') \<Rightarrow> (r, c\<lparr>tstate := s', calls := calls c @ [k]\<rparr>))"

definition Client_Get ::
  "'s Client \<Rightarrow> string \<Rightarrow> RequestOptions option \<Rightarrow> (error + Response) \<times> 's Client" where
  "Client_Get c path ro = Client_Request c (Get path ro)"

definition Client_PostJSON ::
  "'s Client \<Rightarrow> string \<Rightarrow> CreateKVStoreInput \<Rightarrow> RequestOptions option
     \<Rightarrow> (error + Response) \<times> 's Client" where
  "Client_PostJSON c path i ro = Client_Request c (PostJSON path i ro)"

definition Client_Put ::
  "'s Client \<Rightarrow> string \<Rightarrow> RequestOptions option \<Rightarrow> (error + Response) \<times> 's Client" where
  "Client_Put c path ro = Client_Request c (Put path ro)"

definition Client_Delete ::
  "'s Client \<Rightarrow> string \<Rightarrow> RequestOptions option \<Rightarrow> (error + Response) \<times> 's Client" where
  "Client_Delete c path ro = Client_Request c (Delete path ro)"

text \<open>\<open>io.ReadAll\<close> of the standard library, on the modelled readers.\<close>

fun ReadAll :: "reader \<Rightarrow> error + string" where
  "ReadAll (Reader s) = Inr s"
| "ReadAll (BrokenReader m) = Inl (OtherError m)"

text \<open>
  \<open>strconv.Itoa\<close> of the standard library: the decimal rendering, with a leading minus
  sign for a negative number.
\<close>

definition digit :: "nat \<Rightarrow> char" where
  "digit n = ''0123456789'' ! n"

fun uitoa :: "nat \<Rightarrow> string" where
  "uitoa n = (if n < 10 then [digit n] else uitoa (n div 10) @ [digit (n mod 10)])"

declare uitoa.simps [simp del]

definition Itoa :: "int \<Rightarrow> string" where
  "Itoa i = (if i < 0 then CHR ''-'' # uitoa (nat (- i)) else uitoa (nat i))"

text \<open>
  The number that a string of decimal digits denotes, to state that \<open>uitoa\<close> renders in
  decimal.
\<close>

definition decimal_value :: "string \<Rightarrow> nat" where
  "decimal_value s = foldl (\<lambda>a ch. 10 * a + (of_char ch - 48)) 0 s"

text \<open>Reading a Go map at a key: the zero value \<open>""\<close> when the key is absent.\<close>

definition map_index :: "(string \<rightharpoonup> string) \<Rightarrow> string \<Rightarrow> string" where
  "map_index m k = (case m k of None \<Rightarrow> '''' | Some v \<Rightarrow> v)"

section \<open>Store operations\<close>

text \<open>
  A Go result \<open>(*T, error)\<close> is the pair of an optional value (\<open>None\<close> for nil) and an
  optional error (\<open>None\<close> for nil), followed by the client after the call. The operations
  are modelled on a non-nil input struct, except the two \<open>formatFilters\<close>, which test
  their receiver for nil, and \<open>ListKVStores\<close>, which only hands its input to
  \<open>formatFilters\<close>.

  \<open>decodeBodyMap\<close> is declared outside \<open>kv_store.go\<close> and is a parameter: from the body
  it yields an error, or the value it leaves in the pointer handed to it (which it may
  leave nil).
\<close>

definition CreateKVStore ::
  "(reader \<Rightarrow> error + KVStore option) \<Rightarrow> 's Client \<Rightarrow> CreateKVStoreInput
     \<Rightarrow> (KVStore option \<times> error option) \<times> 's Client" where
  "CreateKVStore decodeBodyMap c i =
     (if CreateKVStoreInput.Name i = '''' then ((None, Some ErrMissingName), c)
      else
        case Client_PostJSON c ''/resources/stores/kv'' i None of
          (Inl err, c') \<Rightarrow> ((None, Some err), c')
        | (Inr resp, c') \<Rightarrow>
            (case decodeBodyMap (Response.Body resp) of
               Inl err \<Rightarrow> ((None, Some err), c')
             | Inr store \<Rightarrow> ((store, None), c')))"

definition ListKVStoresInput_formatFilters ::
  "ListKVStoresInput option \<Rightarrow> (string \<rightharpoonup> string)" where
  "ListKVStoresInput_formatFilters l =
     (case l of
        None \<Rightarrow> Map.empty
      | Some i \<Rightarrow>
          if ListKVStoresInput.Limit i = 0 \<and> ListKVStoresInput.Cursor i = '''' then Map.empty
          else
            let m = Map.empty;
                m = (if ListKVStoresInput.Limit i \<noteq> 0
                     then m(''limit'' \<mapsto> Itoa (ListKVStoresInput.Limit i)) else m);
                m = (if ListKVStoresInput.Cursor i \<noteq> ''''
                     then m(''cursor'' \<mapsto> ListKVStoresInput.Cursor i) else m)
            in m)"

definition ListKVStores ::
  "(reader \<Rightarrow> error + ListKVStoresResponse option) \<Rightarrow> 's Client \<Rightarrow> ListKVStoresInput option
     \<Rightarrow> (ListKVStoresResponse option \<times> error option) \<times> 's Client" where
  "ListKVStores decodeBodyMap c i =
     (let ro = \<lparr>Params = ListKVStoresInput_formatFilters i, Body = None\<rparr>
      in case Client_Get c ''/resources/stores/kv'' (Some ro) of
           (Inl err, c') \<Rightarrow> ((None, Some err), c')
         | (Inr resp, c') \<Rightarrow>
             (case decodeBodyMap (Response.Body resp) of
                Inl err \<Rightarrow> ((None, Some err), c')
              | Inr output \<Rightarrow> ((output, None), c')))"

section \<open>The store paginator\<close>

text \<open>
  A call either returns a value or panics on a nil-pointer dereference. A panic leaves
  the assignments made before it in place.
\<close>

datatype 'a outcome = Returned 'a | Panicked

text \<open>
  The paginator's \<open>client\<close> field points to the shared client, which is passed to \<open>Next\<close>
  and returned by it; its \<open>input\<close> field points to the input struct (\<open>None\<close> for a nil
  pointer), whose \<open>Cursor\<close> field \<open>Next\<close> overwrites.
\<close>

record ListKVStoresPaginator =
  cursor :: string
  err :: "error option"
  finished :: bool
  input :: "ListKVStoresInput option"
  stores :: "KVStore list"

definition NewListKVStoresPaginator :: "ListKVStoresInput option \<Rightarrow> ListKVStoresPaginator" where
  "NewListKVStoresPaginator i =
     \<lparr>cursor = '''', err = None, finished = False, input = i, stores = []\<rparr>"

definition ListKVStoresPaginator_Next ::
  "(reader \<Rightarrow> error + ListKVStoresResponse option) \<Rightarrow> 's Client \<Rightarrow> ListKVStoresPaginator
     \<Rightarrow> bool outcome \<times> ListKVStoresPaginator \<times> 's Client" where
  "ListKVStoresPaginator_Next decodeBodyMap c l =
     (if finished l then (Returned False, l\<lparr>stores := []\<rparr>, c)
      else
        case input l of
          None \<Rightarrow> (Panicked, l, c)
        | Some i \<Rightarrow>
            let l = l\<lparr>input := Some (i\<lparr>ListKVStoresInput.Cursor := cursor l\<rparr>)\<rparr>
            in case ListKVStores decodeBodyMap c (input l) of
                 ((output, e), c') \<Rightarrow>
                   let l = (if e \<noteq> None then l\<lparr>err := e, finished := True\<rparr> else l)
                   in case output of
                        None \<Rightarrow> (Panicked, l, c')
                      | Some out \<Rightarrow>
                          let l = l\<lparr>stores := ListKVStoresResponse.Data out\<rparr>;
                              next = map_index (ListKVStoresResponse.Meta out) ''next_cursor'';
                              l = (if next = '''' then l\<lparr>finished := True\<rparr>
                                   else l\<lparr>cursor := next\<rparr>)
                          in (Returned True, l, c'))"

definition ListKVStoresPaginator_Stores :: "ListKVStoresPaginator \<Rightarrow> KVStore list" where
  "ListKVStoresPaginator_Stores l = stores l"

definition ListKVStoresPaginator_Err :: "ListKVStoresPaginator \<Rightarrow> error option" where
  "ListKVStoresPaginator_Err l = err l"

section \<open>Fetching and deleting a store\<close>

definition GetKVStore ::
  "(reader \<Rightarrow> error + KVStore option) \<Rightarrow> 's Client \<Rightarrow> GetKVStoreInput
     \<Rightarrow> (KVStore option \<times> error option) \<times> 's Client" where
  "GetKVStore decodeBodyMap c i =
     (if GetKVStoreInput.ID i = '''' then ((None, Some ErrMissingID), c)
      else
        let path = ''/resources/stores/kv/'' @ GetKVStoreInput.ID i
        in case Client_Get c path None of
             (Inl e, c') \<Rightarrow> ((None, Some e), c')
           | (Inr resp, c') \<Rightarrow>
               (case decodeBodyMap (Response.Body resp) of
                  Inl e \<Rightarrow> ((None, Some e), c')
                | Inr output \<Rightarrow> ((output, None), c')))"

definition DeleteKVStore ::
  "'s Client \<Rightarrow> DeleteKVStoreInput \<Rightarrow> error option \<times> 's Client" where
  "DeleteKVStore c i =
     (if DeleteKVStoreInput.ID i = '''' then (Some ErrMissingID, c)
      else
        let path = ''/resources/stores/kv/'' @ DeleteKVStoreInput.ID i
        in case Client_Delete c path None of
             (Inl e, c') \<Rightarrow> (Some e, c')
           | (Inr resp, c') \<Rightarrow>
               if StatusCode resp \<noteq> StatusNoContent then (Some (NewHTTPError resp), c')
               else (None, c'))"

section \<open>Key operations\<close>

definition ListKVStoreKeysInput_formatFilters ::
  "ListKVStoreKeysInput option \<Rightarrow> (string \<rightharpoonup> string)" where
  "ListKVStoreKeysInput_formatFilters l =
     (case l of
        None \<Rightarrow> Map.empty
      | Some i \<Rightarrow>
          if ListKVStoreKeysInput.Limit i = 0 \<and> ListKVStoreKeysInput.Cursor i = ''''
          then Map.empty
          else
            let m = Map.empty;
                m = (if ListKVStoreKeysInput.Limit i \<noteq> 0
                     then m(''limit'' \<mapsto> Itoa (ListKVStoreKeysInput.Limit i)) else m);
                m = (if ListKVStoreKeysInput.Cursor i \<noteq> ''''
                     then m(''cursor'' \<mapsto> ListKVStoreKeysInput.Cursor i) else m)
            in m)"

definition ListKVStoreKeys ::
  "(reader \<Rightarrow> error + ListKVStoreKeysResponse option) \<Rightarrow> 's Client \<Rightarrow> ListKVStoreKeysInput
     \<Rightarrow> (ListKVStoreKeysResponse option \<times> error option) \<times> 's Client" where
  "ListKVStoreKeys decodeBodyMap c i =
     (if ListKVStoreKeysInput.ID i = '''' then ((None, Some ErrMissingID), c)
      else
        let path = ''/resources/stores/kv/'' @ ListKVStoreKeysInput.ID i @ ''/keys'';
            ro = \<lparr>Params = ListKVStoreKeysInput_formatFilters (Some i), Body = None\<rparr>
        in case Client_Get c path (Some ro) of
             (Inl e, c') \<Rightarrow> ((None, Some e), c')
           | (Inr resp, c') \<Rightarrow>
               (case decodeBodyMap (Response.Body resp) of
                  Inl e \<Rightarrow> ((None, Some e), c')
                | Inr output \<Rightarrow> ((output, None), c')))"

record ListKVStoreKeysPaginator =
  cursor :: string
  err :: "error option"
  finished :: bool
  input :: "ListKVStoreKeysInput option"
  keys :: "string list"

definition NewListKVStoreKeysPaginator ::
  "ListKVStoreKeysInput option \<Rightarrow> ListKVStoreKeysPaginator" where
  "NewListKVStoreKeysPaginator i =
     \<lparr>cursor = '''', err = None, finished = False, input = i, keys = []\<rparr>"

definition ListKVStoreKeysPaginator_Next ::
  "(reader \<Rightarrow> error + ListKVStoreKeysResponse option) \<Rightarrow> 's Client
     \<Rightarrow> ListKVStoreKeysPaginator \<Rightarrow> bool outcome \<times> ListKVStoreKeysPaginator \<times> 's Client" where
  "ListKVStoreKeysPaginator_Next decodeBodyMap c l =
     (if ListKVStoreKeysPaginator.finished l then (Returned False, l\<lparr>keys := []\<rparr>, c)
      else
        case ListKVStoreKeysPaginator.input l of
          None \<Rightarrow> (Panicked, l, c)
        | Some i \<Rightarrow>
            let i = i\<lparr>ListKVStoreKeysInput.Cursor := ListKVStoreKeysPaginator.cursor l\<rparr>;
                l = l\<lparr>ListKVStoreKeysPaginator.input := Some i\<rparr>
            in case ListKVStoreKeys decodeBodyMap c i of
                 ((output, e), c') \<Rightarrow>
                   let l = (if e \<noteq> None
                            then l\<lparr>ListKVStoreKeysPaginator.err := e,
                                   ListKVStoreKeysPaginator.finished := True\<rparr>
                            else l)
                   in case output of
                        None \<Rightarrow> (Panicked, l, c')
                      | Some out \<Rightarrow>
                          let l = l\<lparr>keys := ListKVStoreKeysResponse.Data out\<rparr>;
                              next = map_index (ListKVStoreKeysResponse.Meta out) ''next_cursor'';
                              l = (if next = ''''
                                   then l\<lparr>ListKVStoreKeysPaginator.finished := True\<rparr>
                                   else l\<lparr>ListKVStoreKeysPaginator.cursor := next\<rparr>)
                          in (Returned True, l, c'))"

definition ListKVStoreKeysPaginator_Err :: "ListKVStoreKeysPaginator \<Rightarrow> error option" where
  "ListKVStoreKeysPaginator_Err l = ListKVStoreKeysPaginator.err l"

definition ListKVStoreKeysPaginator_Keys :: "ListKVStoreKeysPaginator \<Rightarrow> string list" where
  "ListKVStoreKeysPaginator_Keys l = keys l"

definition GetKVStoreKey ::
  "'s Client \<Rightarrow> GetKVStoreKeyInput \<Rightarrow> (string \<times> error option) \<times> 's Client" where
  "GetKVStoreKey c i =
     (if GetKVStoreKeyInput.ID i = '''' then (('''', Some ErrMissingID), c)
      else if GetKVStoreKeyInput.Key i = '''' then (('''', Some ErrMissingKey), c)
      else
        let path = ''/resources/stores/kv/'' @ GetKVStoreKeyInput.ID i @ ''/keys/''
                     @ GetKVStoreKeyInput.Key i
        in case Client_Get c path None of
             (Inl e, c') \<Rightarrow> (('''', Some e), c')
           | (Inr resp, c') \<Rightarrow>
               (case ReadAll (Response.Body resp) of
                  Inl e \<Rightarrow> (('''', Some e), c')
                | Inr output \<Rightarrow> ((output, None), c')))"

text \<open>
  \<open>checkResp\<close> is declared outside \<open>kv_store.go\<close> and is a parameter; of its result
  \<open>(*http.Response, error)\<close> the source keeps the error only.
\<close>

definition InsertKVStoreKey ::
  "(Response \<Rightarrow> error option \<Rightarrow> Response \<times> error option) \<Rightarrow> 's Client
     \<Rightarrow> InsertKVStoreKeyInput \<Rightarrow> error option \<times> 's Client" where
  "InsertKVStoreKey checkResp c i =
     (if InsertKVStoreKeyInput.ID i = '''' then (Some ErrMissingID, c)
      else if InsertKVStoreKeyInput.Key i = '''' then (Some ErrMissingKey, c)
      else
        let path = ''/resources/stores/kv/'' @ InsertKVStoreKeyInput.ID i @ ''/keys/''
                     @ InsertKVStoreKeyInput.Key i
        in case Client_Put c path
                  (Some \<lparr>Params = Map.empty, Body = Some (InsertKVStoreKeyInput.Value i)\<rparr>) of
             (Inl e, c') \<Rightarrow> (Some e, c')
           | (Inr resp, c') \<Rightarrow> (snd (checkResp resp None), c'))"

definition DeleteKVStoreKey ::
  "'s Client \<Rightarrow> DeleteKVStoreKeyInput \<Rightarrow> error option \<times> 's Client" where
  "DeleteKVStoreKey c i =
     (if DeleteKVStoreKeyInput.ID i = '''' then (Some ErrMissingID, c)
      else if DeleteKVStoreKeyInput.Key i = '''' then (Some ErrMissingKey, c)
      else
        let path = ''/resources/stores/kv/'' @ DeleteKVStoreKeyInput.ID i @ ''/keys/''
                     @ DeleteKVStoreKeyInput.Key i
        in case Client_Delete c path None of
             (Inl e, c') \<Rightarrow> (Some e, c')
           | (Inr resp, c') \<Rightarrow>
               if StatusCode resp \<noteq> StatusNoContent then (Some (NewHTTPError resp), c')
               else (None, c'))"

section \<open>Test doubles\<close>

text \<open>
  A scripted transport: its state is the list of the answers still to give; each call
  takes the first one, whatever the call is, and a call on an exhausted script fails.
\<close>

fun scripted ::
  "call \<Rightarrow> (error + Response) list \<Rightarrow> (error + Response) \<times> (error + Response) list" where
  "scripted k [] = (Inl (OtherError ''script exhausted''), [])"
| "scripted k (r # rs) = (r, rs)"

definition scripted_client :: "(error + Response) list \<Rightarrow> (error + Response) list Client" where
  "scripted_client rs = \<lparr>transport = scripted, tstate = rs, calls = []\<rparr>"

text \<open>
  A decoder driven by a table from body texts to decoded values; it passes on the error
  of a broken reader and rejects a body that is not in the table.
\<close>

definition decode_table :: "(string \<times> 'a) list \<Rightarrow> reader \<Rightarrow> error + 'a option" where
  "decode_table t b =
     (case b of
        BrokenReader m \<Rightarrow> Inl (OtherError m)
      | Reader s \<Rightarrow>
          (case map_of t s of
             None \<Rightarrow> Inl (OtherError ''malformed body'')
           | Some v \<Rightarrow> Inr (Some v)))"

text \<open>A \<open>checkResp\<close> that accepts the 2xx statuses the service answers with.\<close>

definition checkResp_2xx :: "Response \<Rightarrow> error option \<Rightarrow> Response \<times> error option" where
  "checkResp_2xx resp e =
     (if e \<noteq> None then (resp, e)
      else if StatusCode resp \<in> {200, 201, 202, 204, 205, 206} then (resp, None)
      else (resp, Some (NewHTTPError resp)))"

text \<open>
  A decoder as a JSON decoder behaves on the body \<open>null\<close>: it reports no error and leaves
  the pointer handed to it nil. It rejects every other body.
\<close>

definition decode_null :: "reader \<Rightarrow> error + 'a option" where
  "decode_null b =
     (case b of
        BrokenReader m \<Rightarrow> Inl (OtherError m)
      | Reader s \<Rightarrow> if s = ''null'' then Inr None else Inl (OtherError ''malformed body''))"

section \<open>Validation before any request\<close>

text \<open>
  Claim C6. A \<open>CreateKVStore\<close> call whose \<open>Name\<close> is empty returns \<open>ErrMissingName\<close>,
  and \<open>GetKVStore\<close> and \<open>DeleteKVStore\<close> calls whose \<open>ID\<close> is empty return
  \<open>ErrMissingID\<close>; in each case the client comes back as it was: its transport was not
  invoked and its call log has no new entry.
\<close>

theorem store_operations_validate_before_request:
  "(CreateKVStoreInput.Name i = '''' \<longrightarrow>
      CreateKVStore decodeBodyMap c i = ((None, Some ErrMissingName), c))
   \<and> (GetKVStoreInput.ID g = '''' \<longrightarrow>
      GetKVStore decodeBodyMap c g = ((None, Some ErrMissingID), c))
   \<and> (DeleteKVStoreInput.ID d = '''' \<longrightarrow>
      DeleteKVStore c d = (Some ErrMissingID, c))"
  by (simp add: CreateKVStore_def GetKVStore_def DeleteKVStore_def)

theorem store_operations_validate_before_request_witness:
  "CreateKVStore (decode_table []) (scripted_client [Inr \<lparr>StatusCode = 200, Body = Reader ''{}''\<rparr>])
       \<lparr>CreateKVStoreInput.Name = ''''\<rparr>
     = ((None, Some ErrMissingName),
        scripted_client [Inr \<lparr>StatusCode = 200, Body = Reader ''{}''\<rparr>])
   \<and> GetKVStore (decode_table []) (scripted_client [Inr \<lparr>StatusCode = 200, Body = Reader ''{}''\<rparr>])
       \<lparr>GetKVStoreInput.ID = ''''\<rparr>
     = ((None, Some ErrMissingID),
        scripted_client [Inr \<lparr>StatusCode = 200, Body = Reader ''{}''\<rparr>])
   \<and> DeleteKVStore (scripted_client [Inr \<lparr>StatusCode = 200, Body = Reader ''{}''\<rparr>])
       \<lparr>DeleteKVStoreInput.ID = ''''\<rparr>
     = (Some ErrMissingID, scripted_client [Inr \<lparr>StatusCode = 200, Body = Reader ''{}''\<rparr>])
   \<and> calls (scripted_client [Inr \<lparr>StatusCode = 200, Body = Reader ''{}''\<rparr>]) = []"
  using store_operations_validate_before_request
          [of "\<lparr>CreateKVStoreInput.Name = ''''\<rparr>" "decode_table []"
              "scripted_client [Inr \<lparr>StatusCode = 200, Body = Reader ''{}''\<rparr>]"
              "\<lparr>GetKVStoreInput.ID = ''''\<rparr>" "\<lparr>DeleteKVStoreInput.ID = ''''\<rparr>"]
  by (simp add: scripted_client_def)

text \<open>
  Claim C8. For \<open>GetKVStoreKey\<close>, \<open>InsertKVStoreKey\<close> and \<open>DeleteKVStoreKey\<close>, whenever
  the store \<open>ID\<close> or the \<open>Key\<close> of the input is empty (one of them or both), the call
  returns the error of a field that is missing, \<open>ErrMissingID\<close> when the \<open>ID\<close> is empty
  and \<open>ErrMissingKey\<close> otherwise, and the client comes back as it was: no network call.
\<close>

theorem key_operations_validate_before_request:
  "(GetKVStoreKeyInput.ID g = '''' \<or> GetKVStoreKeyInput.Key g = '''' \<longrightarrow>
      GetKVStoreKey c g
        = (('''', Some (if GetKVStoreKeyInput.ID g = '''' then ErrMissingID else ErrMissingKey)), c))
   \<and> (InsertKVStoreKeyInput.ID i = '''' \<or> InsertKVStoreKeyInput.Key i = '''' \<longrightarrow>
      InsertKVStoreKey checkResp c i
        = (Some (if InsertKVStoreKeyInput.ID i = '''' then ErrMissingID else ErrMissingKey), c))
   \<and> (DeleteKVStoreKeyInput.ID d = '''' \<or> DeleteKVStoreKeyInput.Key d = '''' \<longrightarrow>
      DeleteKVStoreKey c d
        = (Some (if DeleteKVStoreKeyInput.ID d = '''' then ErrMissingID else ErrMissingKey), c))"
  by (simp add: GetKVStoreKey_def InsertKVStoreKey_def DeleteKVStoreKey_def)

theorem key_operations_validate_before_request_witness:
  "GetKVStoreKey (scripted_client []) \<lparr>GetKVStoreKeyInput.ID = ''store'', GetKVStoreKeyInput.Key = ''''\<rparr>
     = (('''', Some ErrMissingKey), scripted_client [])
   \<and> InsertKVStoreKey checkResp_2xx (scripted_client [])
       \<lparr>InsertKVStoreKeyInput.ID = '''', InsertKVStoreKeyInput.Key = ''k'',
        InsertKVStoreKeyInput.Value = ''v''\<rparr>
     = (Some ErrMissingID, scripted_client [])
   \<and> DeleteKVStoreKey (scripted_client [])
       \<lparr>DeleteKVStoreKeyInput.ID = '''', DeleteKVStoreKeyInput.Key = ''''\<rparr>
     = (Some ErrMissingID, scripted_client [])"
  using key_operations_validate_before_request
          [of "\<lparr>GetKVStoreKeyInput.ID = ''store'', GetKVStoreKeyInput.Key = ''''\<rparr>"
              "scripted_client []"
              "\<lparr>InsertKVStoreKeyInput.ID = '''', InsertKVStoreKeyInput.Key = ''k'',
                InsertKVStoreKeyInput.Value = ''v''\<rparr>"
              checkResp_2xx
              "\<lparr>DeleteKVStoreKeyInput.ID = '''', DeleteKVStoreKeyInput.Key = ''''\<rparr>"]
  by simp

text \<open>
  Claim C10. \<open>GetKVStoreKey\<close>, \<open>InsertKVStoreKey\<close> and \<open>DeleteKVStoreKey\<close> check the store
  \<open>ID\<close> before the \<open>Key\<close>: when both are empty the error returned is \<open>ErrMissingID\<close> and
  not \<open>ErrMissingKey\<close>.
\<close>

theorem key_operations_check_ID_before_Key:
  "(GetKVStoreKeyInput.ID g = '''' \<and> GetKVStoreKeyInput.Key g = '''' \<longrightarrow>
      snd (fst (GetKVStoreKey c g)) = Some ErrMissingID
      \<and> snd (fst (GetKVStoreKey c g)) \<noteq> Some ErrMissingKey)
   \<and> (InsertKVStoreKeyInput.ID i = '''' \<and> InsertKVStoreKeyInput.Key i = '''' \<longrightarrow>
      fst (InsertKVStoreKey checkResp c i) = Some ErrMissingID
      \<and> fst (InsertKVStoreKey checkResp c i) \<noteq> Some ErrMissingKey)
   \<and> (DeleteKVStoreKeyInput.ID d = '''' \<and> DeleteKVStoreKeyInput.Key d = '''' \<longrightarrow>
      fst (DeleteKVStoreKey c d) = Some ErrMissingID
      \<and> fst (DeleteKVStoreKey c d) \<noteq> Some ErrMissingKey)"
  by (simp add: GetKVStoreKey_def InsertKVStoreKey_def DeleteKVStoreKey_def)

theorem key_operations_check_ID_before_Key_witness:
  "snd (fst (GetKVStoreKey (scripted_client [])
          \<lparr>GetKVStoreKeyInput.ID = '''', GetKVStoreKeyInput.Key = ''''\<rparr>)) = Some ErrMissingID
   \<and> fst (InsertKVStoreKey checkResp_2xx (scripted_client [])
          \<lparr>InsertKVStoreKeyInput.ID = '''', InsertKVStoreKeyInput.Key = '''',
           InsertKVStoreKeyInput.Value = ''v''\<rparr>) = Some ErrMissingID
   \<and> fst (DeleteKVStoreKey (scripted_client [])
          \<lparr>DeleteKVStoreKeyInput.ID = '''', DeleteKVStoreKeyInput.Key = ''''\<rparr>) = Some ErrMissingID"
  using key_operations_check_ID_before_Key
          [of "\<lparr>GetKVStoreKeyInput.ID = '''', GetKVStoreKeyInput.Key = ''''\<rparr>"
              "scripted_client []"
              "\<lparr>InsertKVStoreKeyInput.ID = '''', InsertKVStoreKeyInput.Key = '''',
                InsertKVStoreKeyInput.Value = ''v''\<rparr>"
              checkResp_2xx
              "\<lparr>DeleteKVStoreKeyInput.ID = '''', DeleteKVStoreKeyInput.Key = ''''\<rparr>"]
  by simp

section \<open>Query parameters of the list operations\<close>

lemma digit_cases:
  "(d::nat) < 10 \<Longrightarrow>
     d = 0 \<or> d = 1 \<or> d = 2 \<or> d = 3 \<or> d = 4 \<or> d = 5 \<or> d = 6 \<or> d = 7 \<or> d = 8 \<or> d = 9"
  by arith

lemma digit_value: "d < 10 \<Longrightarrow> of_char (digit d) - 48 = d"
  using digit_cases [of d] by (auto simp: digit_def)

lemma uitoa_decimal_value: "decimal_value (uitoa n) = n"
proof (induction n rule: uitoa.induct)
  case (1 n)
  show ?case
  proof (cases "n < 10")
    case True
    then show ?thesis by (simp add: uitoa.simps [of n] decimal_value_def digit_value)
  next
    case False
    with 1 have "decimal_value (uitoa (n div 10)) = n div 10" by simp
    with False show ?thesis
      by (simp add: uitoa.simps [of n] decimal_value_def digit_value)
  qed
qed

lemma Itoa_decimal_value:
  "Itoa i = (if i < 0 then CHR ''-'' # uitoa (nat (- i)) else uitoa (nat i))
   \<and> decimal_value (uitoa (nat \<bar>i\<bar>)) = nat \<bar>i\<bar>"
  by (simp add: Itoa_def uitoa_decimal_value)

text \<open>
  Claim C7. For a \<open>ListKVStoresInput\<close> and for a \<open>ListKVStoreKeysInput\<close>: with
  \<open>Limit = 0\<close> and \<open>Cursor = ""\<close>, \<open>formatFilters\<close> yields no query parameter at all;
  with a nonzero \<open>Limit\<close> the parameter \<open>limit\<close> is present and is the decimal rendering
  of \<open>Limit\<close>; with a non-empty \<open>Cursor\<close> the parameter \<open>cursor\<close> is present and is the
  \<open>Cursor\<close>.
\<close>

theorem formatFilters_parameters:
  "(ListKVStoresInput.Limit i = 0 \<and> ListKVStoresInput.Cursor i = '''' \<longrightarrow>
       ListKVStoresInput_formatFilters (Some i) = Map.empty)
   \<and> (ListKVStoresInput.Limit i \<noteq> 0 \<longrightarrow>
       ListKVStoresInput_formatFilters (Some i) ''limit'' = Some (Itoa (ListKVStoresInput.Limit i)))
   \<and> (ListKVStoresInput.Cursor i \<noteq> '''' \<longrightarrow>
       ListKVStoresInput_formatFilters (Some i) ''cursor'' = Some (ListKVStoresInput.Cursor i))
   \<and> (ListKVStoreKeysInput.Limit j = 0 \<and> ListKVStoreKeysInput.Cursor j = '''' \<longrightarrow>
       ListKVStoreKeysInput_formatFilters (Some j) = Map.empty)
   \<and> (ListKVStoreKeysInput.Limit j \<noteq> 0 \<longrightarrow>
       ListKVStoreKeysInput_formatFilters (Some j) ''limit''
         = Some (Itoa (ListKVStoreKeysInput.Limit j)))
   \<and> (ListKVStoreKeysInput.Cursor j \<noteq> '''' \<longrightarrow>
       ListKVStoreKeysInput_formatFilters (Some j) ''cursor''
         = Some (ListKVStoreKeysInput.Cursor j))"
  by (simp add: ListKVStoresInput_formatFilters_def ListKVStoreKeysInput_formatFilters_def Let_def)

theorem formatFilters_parameters_witness:
  "ListKVStoresInput_formatFilters
       (Some \<lparr>ListKVStoresInput.Cursor = '''', ListKVStoresInput.Limit = 0\<rparr>) = Map.empty
   \<and> ListKVStoresInput_formatFilters
       (Some \<lparr>ListKVStoresInput.Cursor = ''c1'', ListKVStoresInput.Limit = 25\<rparr>) ''limit''
       = Some ''25''
   \<and> ListKVStoresInput_formatFilters
       (Some \<lparr>ListKVStoresInput.Cursor = ''c1'', ListKVStoresInput.Limit = 25\<rparr>) ''cursor''
       = Some ''c1''
   \<and> ListKVStoreKeysInput_formatFilters
       (Some \<lparr>ListKVStoreKeysInput.Cursor = '''', ListKVStoreKeysInput.ID = ''s'',
              ListKVStoreKeysInput.Limit = 0\<rparr>) = Map.empty
   \<and> ListKVStoreKeysInput_formatFilters
       (Some \<lparr>ListKVStoreKeysInput.Cursor = ''c1'', ListKVStoreKeysInput.ID = ''s'',
              ListKVStoreKeysInput.Limit = - 307\<rparr>) ''limit'' = Some ''-307''
   \<and> ListKVStoreKeysInput_formatFilters
       (Some \<lparr>ListKVStoreKeysInput.Cursor = ''c1'', ListKVStoreKeysInput.ID = ''s'',
              ListKVStoreKeysInput.Limit = - 307\<rparr>) ''cursor'' = Some ''c1''"
  using formatFilters_parameters
          [of "\<lparr>ListKVStoresInput.Cursor = '''', ListKVStoresInput.Limit = 0\<rparr>"
              "\<lparr>ListKVStoreKeysInput.Cursor = '''', ListKVStoreKeysInput.ID = ''s'',
                ListKVStoreKeysInput.Limit = 0\<rparr>"]
        formatFilters_parameters
          [of "\<lparr>ListKVStoresInput.Cursor = ''c1'', ListKVStoresInput.Limit = 25\<rparr>"
              "\<lparr>ListKVStoreKeysInput.Cursor = ''c1'', ListKVStoreKeysInput.ID = ''s'',
                ListKVStoreKeysInput.Limit = - 307\<rparr>"]
  by (simp add: Itoa_def uitoa.simps digit_def)

section \<open>Deleting\<close>

text \<open>
  Claim C5. For \<open>DeleteKVStore\<close> and \<open>DeleteKVStoreKey\<close>, when the required fields are
  present and the client's \<open>Delete\<close> call comes back with a response: if the status code
  is 204 the call returns no error; for any other status code it returns the error that
  \<open>NewHTTPError\<close> builds from that response, which carries the response and its status.
\<close>

theorem delete_requires_no_content:
  "(DeleteKVStoreInput.ID i \<noteq> ''''
      \<and> Client_Delete c (''/resources/stores/kv/'' @ DeleteKVStoreInput.ID i) None = (Inr resp, c')
    \<longrightarrow> DeleteKVStore c i
          = (if StatusCode resp = 204 then None else Some (NewHTTPError resp), c')
        \<and> NewHTTPError resp = HTTPError resp
        \<and> HTTPError_StatusCode (NewHTTPError resp) = Some (StatusCode resp))
   \<and> (DeleteKVStoreKeyInput.ID j \<noteq> '''' \<and> DeleteKVStoreKeyInput.Key j \<noteq> ''''
      \<and> Client_Delete c (''/resources/stores/kv/'' @ DeleteKVStoreKeyInput.ID j @ ''/keys/''
                           @ DeleteKVStoreKeyInput.Key j) None = (Inr resp', c'')
    \<longrightarrow> DeleteKVStoreKey c j
          = (if StatusCode resp' = 204 then None else Some (NewHTTPError resp'), c'')
        \<and> NewHTTPError resp' = HTTPError resp'
        \<and> HTTPError_StatusCode (NewHTTPError resp') = Some (StatusCode resp'))"
  by (simp add: DeleteKVStore_def DeleteKVStoreKey_def StatusNoContent_def NewHTTPError_def)

theorem delete_requires_no_content_witness:
  "DeleteKVStore (scripted_client [Inr \<lparr>StatusCode = 204, Body = Reader ''''\<rparr>])
       \<lparr>DeleteKVStoreInput.ID = ''s1''\<rparr>
     = (None, \<lparr>transport = scripted, tstate = [],
               calls = [Delete ''/resources/stores/kv/s1'' None]\<rparr>)
   \<and> DeleteKVStoreKey (scripted_client [Inr \<lparr>StatusCode = 200, Body = Reader ''ok''\<rparr>])
       \<lparr>DeleteKVStoreKeyInput.ID = ''s1'', DeleteKVStoreKeyInput.Key = ''k''\<rparr>
     = (Some (HTTPError \<lparr>StatusCode = 200, Body = Reader ''ok''\<rparr>),
        \<lparr>transport = scripted, tstate = [],
         calls = [Delete ''/resources/stores/kv/s1/keys/k'' None]\<rparr>)"
proof -
  have h1: "Client_Delete (scripted_client [Inr \<lparr>StatusCode = 204, Body = Reader ''''\<rparr>])
              (''/resources/stores/kv/'' @ DeleteKVStoreInput.ID \<lparr>DeleteKVStoreInput.ID = ''s1''\<rparr>) None
            = (Inr \<lparr>StatusCode = 204, Body = Reader ''''\<rparr>,
               \<lparr>transport = scripted, tstate = [],
                calls = [Delete ''/resources/stores/kv/s1'' None]\<rparr>)"
    by (simp add: Client_Delete_def Client_Request_def scripted_client_def)
  have h2: "Client_Delete (scripted_client [Inr \<lparr>StatusCode = 200, Body = Reader ''ok''\<rparr>])
              (''/resources/stores/kv/''
                 @ DeleteKVStoreKeyInput.ID
                     \<lparr>DeleteKVStoreKeyInput.ID = ''s1'', DeleteKVStoreKeyInput.Key = ''k''\<rparr>
                 @ ''/keys/''
                 @ DeleteKVStoreKeyInput.Key
                     \<lparr>DeleteKVStoreKeyInput.ID = ''s1'', DeleteKVStoreKeyInput.Key = ''k''\<rparr>) None
            = (Inr \<lparr>StatusCode = 200, Body = Reader ''ok''\<rparr>,
               \<lparr>transport = scripted, tstate = [],
                calls = [Delete ''/resources/stores/kv/s1/keys/k'' None]\<rparr>)"
    by (simp add: Client_Delete_def Client_Request_def scripted_client_def)
  from delete_requires_no_content
         [of "\<lparr>DeleteKVStoreInput.ID = ''s1''\<rparr>"
             "scripted_client [Inr \<lparr>StatusCode = 204, Body = Reader ''''\<rparr>]"]
       h1
  have a: "DeleteKVStore (scripted_client [Inr \<lparr>StatusCode = 204, Body = Reader ''''\<rparr>])
       \<lparr>DeleteKVStoreInput.ID = ''s1''\<rparr>
     = (None, \<lparr>transport = scripted, tstate = [],
               calls = [Delete ''/resources/stores/kv/s1'' None]\<rparr>)"
    by simp
  from delete_requires_no_content
         [of _ "scripted_client [Inr \<lparr>StatusCode = 200, Body = Reader ''ok''\<rparr>]" _ _
             "\<lparr>DeleteKVStoreKeyInput.ID = ''s1'', DeleteKVStoreKeyInput.Key = ''k''\<rparr>"]
       h2
  have b: "DeleteKVStoreKey (scripted_client [Inr \<lparr>StatusCode = 200, Body = Reader ''ok''\<rparr>])
       \<lparr>DeleteKVStoreKeyInput.ID = ''s1'', DeleteKVStoreKeyInput.Key = ''k''\<rparr>
     = (Some (HTTPError \<lparr>StatusCode = 200, Body = Reader ''ok''\<rparr>),
        \<lparr>transport = scripted, tstate = [],
         calls = [Delete ''/resources/stores/kv/s1/keys/k'' None]\<rparr>)"
    by simp
  from a b show ?thesis by simp
qed

section \<open>Inserting a key\<close>

text \<open>
  Claim C9. \<open>InsertKVStoreKey\<close> does not require a non-empty value: for every input with
  a non-empty \<open>ID\<close> and a non-empty \<open>Key\<close>, whatever the \<open>Value\<close> (the empty string
  included), the call goes on to the client: exactly one call is logged, a \<open>Put\<close> on the
  key's path whose request body is the \<open>Value\<close> string itself, and the error returned is
  the transport's, or else the one \<open>checkResp\<close> gives for the response.
\<close>

theorem InsertKVStoreKey_sends_raw_value:
  "InsertKVStoreKeyInput.ID i \<noteq> '''' \<and> InsertKVStoreKeyInput.Key i \<noteq> '''' \<longrightarrow>
     (case InsertKVStoreKey checkResp c i of
        (e, c') \<Rightarrow>
          calls c' = calls c @
            [Put (''/resources/stores/kv/'' @ InsertKVStoreKeyInput.ID i @ ''/keys/''
                    @ InsertKVStoreKeyInput.Key i)
                 (Some \<lparr>Params = Map.empty, Body = Some (InsertKVStoreKeyInput.Value i)\<rparr>)]
          \<and> e = (case fst (transport c
                             (Put (''/resources/stores/kv/'' @ InsertKVStoreKeyInput.ID i
                                     @ ''/keys/'' @ InsertKVStoreKeyInput.Key i)
                                  (Some \<lparr>Params = Map.empty,
                                          Body = Some (InsertKVStoreKeyInput.Value i)\<rparr>))
                             (tstate c)) of
                   Inl e' \<Rightarrow> Some e'
                 | Inr resp \<Rightarrow> snd (checkResp resp None)))"
  by (auto simp: InsertKVStoreKey_def Let_def Client_Put_def Client_Request_def
          split: prod.splits sum.splits)

theorem InsertKVStoreKey_sends_raw_value_witness:
  "InsertKVStoreKey checkResp_2xx (scripted_client [Inr \<lparr>StatusCode = 200, Body = Reader ''''\<rparr>])
       \<lparr>InsertKVStoreKeyInput.ID = ''s1'', InsertKVStoreKeyInput.Key = ''k'',
        InsertKVStoreKeyInput.Value = ''''\<rparr>
     = (None, \<lparr>transport = scripted, tstate = [],
               calls = [Put ''/resources/stores/kv/s1/keys/k''
                          (Some \<lparr>Params = Map.empty, Body = Some ''''\<rparr>)]\<rparr>)"
proof -
  let ?c = "scripted_client [Inr \<lparr>StatusCode = 200, Body = Reader ''''\<rparr>]"
  let ?i = "\<lparr>InsertKVStoreKeyInput.ID = ''s1'', InsertKVStoreKeyInput.Key = ''k'',
             InsertKVStoreKeyInput.Value = ''''\<rparr>"
  obtain e c' where r: "InsertKVStoreKey checkResp_2xx ?c ?i = (e, c')"
    by (cases "InsertKVStoreKey checkResp_2xx ?c ?i")
  from InsertKVStoreKey_sends_raw_value [where i = ?i and checkResp = checkResp_2xx and c = ?c] r
  have log: "calls c' = [Put ''/resources/stores/kv/s1/keys/k''
                           (Some \<lparr>Params = Map.empty, Body = Some ''''\<rparr>)]"
    and res: "e = None"
    by (simp_all add: scripted_client_def checkResp_2xx_def)
  have rest: "transport c' = scripted \<and> tstate c' = []"
    using r
    by (auto simp: InsertKVStoreKey_def Client_Put_def Client_Request_def scripted_client_def)
  from log res rest r show ?thesis by (cases c') simp
qed

section \<open>The paginators' terminal state\<close>

text \<open>
  Claim C2. For both paginators, when \<open>finished\<close> is set \<open>Next\<close> returns false, empties
  the current page and changes nothing else: the error, the cursor, the \<open>finished\<close> flag
  and the input stay as they are, and the client comes back as it was, so that no list
  call is made. A second \<open>Next\<close> gives the same result again.
\<close>

theorem Next_finished_is_terminal:
  "(ListKVStoresPaginator.finished l \<longrightarrow>
      ListKVStoresPaginator_Next D c l = (Returned False, l\<lparr>stores := []\<rparr>, c)
      \<and> ListKVStoresPaginator_Next D c (l\<lparr>stores := []\<rparr>) = (Returned False, l\<lparr>stores := []\<rparr>, c))
   \<and> (ListKVStoreKeysPaginator.finished k \<longrightarrow>
      ListKVStoreKeysPaginator_Next D' c k = (Returned False, k\<lparr>keys := []\<rparr>, c)
      \<and> ListKVStoreKeysPaginator_Next D' c (k\<lparr>keys := []\<rparr>) = (Returned False, k\<lparr>keys := []\<rparr>, c))"
  by (simp add: ListKVStoresPaginator_Next_def ListKVStoreKeysPaginator_Next_def)

theorem Next_finished_is_terminal_witness:
  "ListKVStoresPaginator_Next (decode_table [])
       (scripted_client [Inr \<lparr>StatusCode = 200, Body = Reader ''{}''\<rparr>])
       \<lparr>ListKVStoresPaginator.cursor = ''c2'',
        ListKVStoresPaginator.err = Some (OtherError ''timeout''),
        ListKVStoresPaginator.finished = True,
        ListKVStoresPaginator.input =
          Some \<lparr>ListKVStoresInput.Cursor = ''c2'', ListKVStoresInput.Limit = 10\<rparr>,
        stores = [\<lparr>CreatedAt = None, KVStore.ID = ''s1'', KVStore.Name = ''n'', UpdatedAt = None\<rparr>]\<rparr>
     = (Returned False,
        \<lparr>ListKVStoresPaginator.cursor = ''c2'',
         ListKVStoresPaginator.err = Some (OtherError ''timeout''),
         ListKVStoresPaginator.finished = True,
         ListKVStoresPaginator.input =
           Some \<lparr>ListKVStoresInput.Cursor = ''c2'', ListKVStoresInput.Limit = 10\<rparr>,
         stores = []\<rparr>,
        scripted_client [Inr \<lparr>StatusCode = 200, Body = Reader ''{}''\<rparr>])
   \<and> ListKVStoreKeysPaginator_Next (decode_table [])
       (scripted_client [Inr \<lparr>StatusCode = 200, Body = Reader ''{}''\<rparr>])
       \<lparr>ListKVStoreKeysPaginator.cursor = '''',
        ListKVStoreKeysPaginator.err = None,
        ListKVStoreKeysPaginator.finished = True,
        ListKVStoreKeysPaginator.input = None,
        keys = [''a'', ''b'']\<rparr>
     = (Returned False,
        \<lparr>ListKVStoreKeysPaginator.cursor = '''',
         ListKVStoreKeysPaginator.err = None,
         ListKVStoreKeysPaginator.finished = True,
         ListKVStoreKeysPaginator.input = None,
         keys = []\<rparr>,
        scripted_client [Inr \<lparr>StatusCode = 200, Body = Reader ''{}''\<rparr>])"
  using Next_finished_is_terminal
          [of "\<lparr>ListKVStoresPaginator.cursor = ''c2'',
                ListKVStoresPaginator.err = Some (OtherError ''timeout''),
                ListKVStoresPaginator.finished = True,
                ListKVStoresPaginator.input =
                  Some \<lparr>ListKVStoresInput.Cursor = ''c2'', ListKVStoresInput.Limit = 10\<rparr>,
                stores = [\<lparr>CreatedAt = None, KVStore.ID = ''s1'', KVStore.Name = ''n'',
                           UpdatedAt = None\<rparr>]\<rparr>"
              "decode_table []"
              "scripted_client [Inr \<lparr>StatusCode = 200, Body = Reader ''{}''\<rparr>]"
              "\<lparr>ListKVStoreKeysPaginator.cursor = '''',
                ListKVStoreKeysPaginator.err = None,
                ListKVStoreKeysPaginator.finished = True,
                ListKVStoreKeysPaginator.input = None,
                keys = [''a'', ''b'']\<rparr>"
              "decode_table []"]
  by simp

section \<open>Advancing a paginator\<close>

lemma ListKVStores_error_nil:
  "ListKVStores D c i = ((out, Some e), c') \<Longrightarrow> out = None"
  by (auto simp: ListKVStores_def Let_def split: prod.splits sum.splits)

lemma ListKVStoreKeys_error_nil:
  "ListKVStoreKeys D c i = ((out, Some e), c') \<Longrightarrow> out = None"
  by (auto simp: ListKVStoreKeys_def Let_def split: prod.splits sum.splits if_splits)

text \<open>
  Claim C1. For both paginators, when \<open>Next\<close> is called on a paginator that is not
  finished and the list call it makes returns an error, \<open>Next\<close> records the error and
  sets \<open>finished\<close>, and then does not return: it goes on to read the data of the response,
  which is nil, and panics on that dereference.
\<close>

theorem Next_error_still_reads_response:
  "(\<not> ListKVStoresPaginator.finished l \<and> ListKVStoresPaginator.input l = Some i
      \<and> ListKVStores D c (Some (i\<lparr>ListKVStoresInput.Cursor := ListKVStoresPaginator.cursor l\<rparr>))
          = ((out, Some e), c')
    \<longrightarrow> out = None
        \<and> ListKVStoresPaginator_Next D c l
          = (Panicked,
             l\<lparr>ListKVStoresPaginator.input :=
                  Some (i\<lparr>ListKVStoresInput.Cursor := ListKVStoresPaginator.cursor l\<rparr>),
               ListKVStoresPaginator.err := Some e,
               ListKVStoresPaginator.finished := True\<rparr>, c'))
   \<and> (\<not> ListKVStoreKeysPaginator.finished k \<and> ListKVStoreKeysPaginator.input k = Some j
      \<and> ListKVStoreKeys D' c (j\<lparr>ListKVStoreKeysInput.Cursor := ListKVStoreKeysPaginator.cursor k\<rparr>)
          = ((out', Some e'), c'')
    \<longrightarrow> out' = None
        \<and> ListKVStoreKeysPaginator_Next D' c k
          = (Panicked,
             k\<lparr>ListKVStoreKeysPaginator.input :=
                  Some (j\<lparr>ListKVStoreKeysInput.Cursor := ListKVStoreKeysPaginator.cursor k\<rparr>),
               ListKVStoreKeysPaginator.err := Some e',
               ListKVStoreKeysPaginator.finished := True\<rparr>, c''))"
proof (intro conjI impI)
  assume a: "\<not> ListKVStoresPaginator.finished l \<and> ListKVStoresPaginator.input l = Some i
      \<and> ListKVStores D c (Some (i\<lparr>ListKVStoresInput.Cursor := ListKVStoresPaginator.cursor l\<rparr>))
          = ((out, Some e), c')"
  then show n: "out = None" using ListKVStores_error_nil by blast
  from a n show "ListKVStoresPaginator_Next D c l
          = (Panicked,
             l\<lparr>ListKVStoresPaginator.input :=
                  Some (i\<lparr>ListKVStoresInput.Cursor := ListKVStoresPaginator.cursor l\<rparr>),
               ListKVStoresPaginator.err := Some e,
               ListKVStoresPaginator.finished := True\<rparr>, c')"
    by (simp add: ListKVStoresPaginator_Next_def Let_def)
next
  assume a: "\<not> ListKVStoreKeysPaginator.finished k \<and> ListKVStoreKeysPaginator.input k = Some j
      \<and> ListKVStoreKeys D' c (j\<lparr>ListKVStoreKeysInput.Cursor := ListKVStoreKeysPaginator.cursor k\<rparr>)
          = ((out', Some e'), c'')"
  then show n: "out' = None" using ListKVStoreKeys_error_nil by blast
  from a n show "ListKVStoreKeysPaginator_Next D' c k
          = (Panicked,
             k\<lparr>ListKVStoreKeysPaginator.input :=
                  Some (j\<lparr>ListKVStoreKeysInput.Cursor := ListKVStoreKeysPaginator.cursor k\<rparr>),
               ListKVStoreKeysPaginator.err := Some e',
               ListKVStoreKeysPaginator.finished := True\<rparr>, c'')"
    by (simp add: ListKVStoreKeysPaginator_Next_def Let_def)
qed

theorem Next_error_still_reads_response_witness:
  "ListKVStoresPaginator_Next (decode_table [])
       (scripted_client [Inl (OtherError ''connection refused'')])
       (NewListKVStoresPaginator
          (Some \<lparr>ListKVStoresInput.Cursor = '''', ListKVStoresInput.Limit = 0\<rparr>))
     = (Panicked,
        \<lparr>ListKVStoresPaginator.cursor = '''',
         ListKVStoresPaginator.err = Some (OtherError ''connection refused''),
         ListKVStoresPaginator.finished = True,
         ListKVStoresPaginator.input =
           Some \<lparr>ListKVStoresInput.Cursor = '''', ListKVStoresInput.Limit = 0\<rparr>,
         stores = []\<rparr>,
        \<lparr>transport = scripted, tstate = [],
         calls = [Get ''/resources/stores/kv'' (Some \<lparr>Params = Map.empty, Body = None\<rparr>)]\<rparr>)
   \<and> ListKVStoreKeysPaginator_Next (decode_table [])
       (scripted_client [Inl (OtherError ''connection refused'')])
       (NewListKVStoreKeysPaginator
          (Some \<lparr>ListKVStoreKeysInput.Cursor = '''', ListKVStoreKeysInput.ID = '''',
                 ListKVStoreKeysInput.Limit = 0\<rparr>))
     = (Panicked,
        \<lparr>ListKVStoreKeysPaginator.cursor = '''',
         ListKVStoreKeysPaginator.err = Some ErrMissingID,
         ListKVStoreKeysPaginator.finished = True,
         ListKVStoreKeysPaginator.input =
           Some \<lparr>ListKVStoreKeysInput.Cursor = '''', ListKVStoreKeysInput.ID = '''',
                 ListKVStoreKeysInput.Limit = 0\<rparr>,
         keys = []\<rparr>,
        scripted_client [Inl (OtherError ''connection refused'')])"
proof -
  let ?c = "scripted_client [Inl (OtherError ''connection refused'')]"
  let ?i = "\<lparr>ListKVStoresInput.Cursor = '''', ListKVStoresInput.Limit = 0\<rparr>"
  let ?j = "\<lparr>ListKVStoreKeysInput.Cursor = '''', ListKVStoreKeysInput.ID = '''',
             ListKVStoreKeysInput.Limit = 0\<rparr>"
  let ?c' = "\<lparr>transport = scripted, tstate = [],
              calls = [Get ''/resources/stores/kv'' (Some \<lparr>Params = Map.empty, Body = None\<rparr>)]\<rparr>"
  have h1: "ListKVStores (decode_table []) ?c
              (Some (?i\<lparr>ListKVStoresInput.Cursor :=
                        ListKVStoresPaginator.cursor (NewListKVStoresPaginator (Some ?i))\<rparr>))
            = ((None, Some (OtherError ''connection refused'')), ?c')"
    by (simp add: ListKVStores_def ListKVStoresInput_formatFilters_def Client_Get_def
          Client_Request_def scripted_client_def NewListKVStoresPaginator_def)
  have h2: "ListKVStoreKeys (decode_table []) ?c
              (?j\<lparr>ListKVStoreKeysInput.Cursor :=
                     ListKVStoreKeysPaginator.cursor (NewListKVStoreKeysPaginator (Some ?j))\<rparr>)
            = ((None, Some ErrMissingID), ?c)"
    by (simp add: ListKVStoreKeys_def)
  note t = Next_error_still_reads_response
             [where l = "NewListKVStoresPaginator (Some ?i)" and i = ?i and D = "decode_table []"
                and c = ?c and out = None and e = "OtherError ''connection refused''"
                and c' = ?c' and k = "NewListKVStoreKeysPaginator (Some ?j)" and j = ?j
                and D' = "decode_table []" and out' = None and e' = ErrMissingID and c'' = ?c]
  from t h1 h2 show ?thesis
    by (simp add: NewListKVStoresPaginator_def NewListKVStoreKeysPaginator_def)
qed

text \<open>
  The successful step. For both paginators, when \<open>Next\<close> is called on a paginator that is not
  finished and the list call it makes succeeds with a response, \<open>Next\<close> returns true, the
  current page is the \<open>Data\<close> of the response, and: if \<open>next_cursor\<close> is absent from
  \<open>Meta\<close> or empty, the paginator is finished (and keeps its cursor); otherwise it is
  not finished and its cursor, which the following \<open>Next\<close> submits, is that \<open>next_cursor\<close>.
\<close>

theorem Next_success_stores_page_and_cursor:
  "(\<not> ListKVStoresPaginator.finished l \<and> ListKVStoresPaginator.input l = Some i
      \<and> ListKVStores D c (Some (i\<lparr>ListKVStoresInput.Cursor := ListKVStoresPaginator.cursor l\<rparr>))
          = ((Some out, None), c')
    \<longrightarrow> (case ListKVStoresPaginator_Next D c l of
           (r, l', k') \<Rightarrow>
             r = Returned True \<and> k' = c'
             \<and> ListKVStoresPaginator_Stores l' = ListKVStoresResponse.Data out
             \<and> ListKVStoresPaginator_Err l' = ListKVStoresPaginator_Err l
             \<and> (if ListKVStoresResponse.Meta out ''next_cursor'' = None
                   \<or> ListKVStoresResponse.Meta out ''next_cursor'' = Some ''''
                 then ListKVStoresPaginator.finished l'
                   \<and> ListKVStoresPaginator.cursor l' = ListKVStoresPaginator.cursor l
                 else \<not> ListKVStoresPaginator.finished l'
                   \<and> Some (ListKVStoresPaginator.cursor l')
                       = ListKVStoresResponse.Meta out ''next_cursor'')))
   \<and> (\<not> ListKVStoreKeysPaginator.finished k \<and> ListKVStoreKeysPaginator.input k = Some j
      \<and> ListKVStoreKeys D' c (j\<lparr>ListKVStoreKeysInput.Cursor := ListKVStoreKeysPaginator.cursor k\<rparr>)
          = ((Some out', None), c'')
    \<longrightarrow> (case ListKVStoreKeysPaginator_Next D' c k of
           (r, k', k'') \<Rightarrow>
             r = Returned True \<and> k'' = c''
             \<and> ListKVStoreKeysPaginator_Keys k' = ListKVStoreKeysResponse.Data out'
             \<and> ListKVStoreKeysPaginator_Err k' = ListKVStoreKeysPaginator_Err k
             \<and> (if ListKVStoreKeysResponse.Meta out' ''next_cursor'' = None
                   \<or> ListKVStoreKeysResponse.Meta out' ''next_cursor'' = Some ''''
                 then ListKVStoreKeysPaginator.finished k'
                   \<and> ListKVStoreKeysPaginator.cursor k' = ListKVStoreKeysPaginator.cursor k
                 else \<not> ListKVStoreKeysPaginator.finished k'
                   \<and> Some (ListKVStoreKeysPaginator.cursor k')
                       = ListKVStoreKeysResponse.Meta out' ''next_cursor'')))"
  by (auto simp: ListKVStoresPaginator_Next_def ListKVStoreKeysPaginator_Next_def Let_def
        ListKVStoresPaginator_Stores_def ListKVStoreKeysPaginator_Keys_def map_index_def
        ListKVStoresPaginator_Err_def ListKVStoreKeysPaginator_Err_def
        split: option.splits)

theorem Next_success_stores_page_and_cursor_witness:
  "ListKVStoresPaginator_Next
       (decode_table [(''p1'', \<lparr>ListKVStoresResponse.Data =
                                 [\<lparr>CreatedAt = None, KVStore.ID = ''s1'', KVStore.Name = ''a'',
                                   UpdatedAt = None\<rparr>],
                               ListKVStoresResponse.Meta = [''next_cursor'' \<mapsto> ''c1'']\<rparr>)])
       (scripted_client [Inr \<lparr>StatusCode = 200, Body = Reader ''p1''\<rparr>])
       (NewListKVStoresPaginator
          (Some \<lparr>ListKVStoresInput.Cursor = '''', ListKVStoresInput.Limit = 1\<rparr>))
     = (Returned True,
        \<lparr>ListKVStoresPaginator.cursor = ''c1'',
         ListKVStoresPaginator.err = None,
         ListKVStoresPaginator.finished = False,
         ListKVStoresPaginator.input =
           Some \<lparr>ListKVStoresInput.Cursor = '''', ListKVStoresInput.Limit = 1\<rparr>,
         stores = [\<lparr>CreatedAt = None, KVStore.ID = ''s1'', KVStore.Name = ''a'',
                    UpdatedAt = None\<rparr>]\<rparr>,
        \<lparr>transport = scripted, tstate = [],
         calls = [Get ''/resources/stores/kv''
                    (Some \<lparr>Params = [''limit'' \<mapsto> ''1''], Body = None\<rparr>)]\<rparr>)
   \<and> ListKVStoreKeysPaginator_Next
       (decode_table [(''p1'', \<lparr>ListKVStoreKeysResponse.Data = [''k1'', ''k2''],
                               ListKVStoreKeysResponse.Meta = Map.empty\<rparr>)])
       (scripted_client [Inr \<lparr>StatusCode = 200, Body = Reader ''p1''\<rparr>])
       (NewListKVStoreKeysPaginator
          (Some \<lparr>ListKVStoreKeysInput.Cursor = '''', ListKVStoreKeysInput.ID = ''s1'',
                 ListKVStoreKeysInput.Limit = 0\<rparr>))
     = (Returned True,
        \<lparr>ListKVStoreKeysPaginator.cursor = '''',
         ListKVStoreKeysPaginator.err = None,
         ListKVStoreKeysPaginator.finished = True,
         ListKVStoreKeysPaginator.input =
           Some \<lparr>ListKVStoreKeysInput.Cursor = '''', ListKVStoreKeysInput.ID = ''s1'',
                 ListKVStoreKeysInput.Limit = 0\<rparr>,
         keys = [''k1'', ''k2'']\<rparr>,
        \<lparr>transport = scripted, tstate = [],
         calls = [Get ''/resources/stores/kv/s1/keys''
                    (Some \<lparr>Params = Map.empty, Body = None\<rparr>)]\<rparr>)"
proof -
  let ?o = "\<lparr>ListKVStoresResponse.Data =
               [\<lparr>CreatedAt = None, KVStore.ID = ''s1'', KVStore.Name = ''a'', UpdatedAt = None\<rparr>],
             ListKVStoresResponse.Meta = [''next_cursor'' \<mapsto> ''c1'']\<rparr>"
  let ?D = "decode_table [(''p1'', ?o)]"
  let ?o' = "\<lparr>ListKVStoreKeysResponse.Data = [''k1'', ''k2''],
              ListKVStoreKeysResponse.Meta = Map.empty\<rparr>"
  let ?D' = "decode_table [(''p1'', ?o')]"
  let ?c = "scripted_client [Inr \<lparr>StatusCode = 200, Body = Reader ''p1''\<rparr>]"
  let ?i = "\<lparr>ListKVStoresInput.Cursor = '''', ListKVStoresInput.Limit = 1\<rparr>"
  let ?j = "\<lparr>ListKVStoreKeysInput.Cursor = '''', ListKVStoreKeysInput.ID = ''s1'',
             ListKVStoreKeysInput.Limit = 0\<rparr>"
  let ?c' = "\<lparr>transport = scripted, tstate = [],
              calls = [Get ''/resources/stores/kv''
                         (Some \<lparr>Params = [''limit'' \<mapsto> ''1''], Body = None\<rparr>)]\<rparr>"
  let ?c'' = "\<lparr>transport = scripted, tstate = [],
               calls = [Get ''/resources/stores/kv/s1/keys''
                          (Some \<lparr>Params = Map.empty, Body = None\<rparr>)]\<rparr>"
  let ?l = "NewListKVStoresPaginator (Some ?i)"
  let ?k = "NewListKVStoreKeysPaginator (Some ?j)"
  have h1: "ListKVStores ?D ?c
              (Some (?i\<lparr>ListKVStoresInput.Cursor := ListKVStoresPaginator.cursor ?l\<rparr>))
            = ((Some ?o, None), ?c')"
    by (simp add: ListKVStores_def ListKVStoresInput_formatFilters_def Client_Get_def
          Client_Request_def scripted_client_def NewListKVStoresPaginator_def decode_table_def
          Itoa_def uitoa.simps digit_def)
  have h2: "ListKVStoreKeys ?D' ?c
              (?j\<lparr>ListKVStoreKeysInput.Cursor := ListKVStoreKeysPaginator.cursor ?k\<rparr>)
            = ((Some ?o', None), ?c'')"
    by (simp add: ListKVStoreKeys_def ListKVStoreKeysInput_formatFilters_def Client_Get_def
          Client_Request_def scripted_client_def NewListKVStoreKeysPaginator_def decode_table_def)
  note t = Next_success_stores_page_and_cursor
             [where l = ?l and i = ?i and D = ?D and c = ?c and out = ?o and c' = ?c'
                and k = ?k and j = ?j and D' = ?D' and out' = ?o' and c'' = ?c'']
  obtain r1 l1 k1 where n1: "ListKVStoresPaginator_Next ?D ?c ?l = (r1, l1, k1)"
    by (cases "ListKVStoresPaginator_Next ?D ?c ?l")
  obtain r2 l2 k2 where n2: "ListKVStoreKeysPaginator_Next ?D' ?c ?k = (r2, l2, k2)"
    by (cases "ListKVStoreKeysPaginator_Next ?D' ?c ?k")
  from t h1 n1 have a: "r1 = Returned True \<and> k1 = ?c'
      \<and> stores l1 = [\<lparr>CreatedAt = None, KVStore.ID = ''s1'', KVStore.Name = ''a'', UpdatedAt = None\<rparr>]
      \<and> ListKVStoresPaginator.err l1 = None
      \<and> \<not> ListKVStoresPaginator.finished l1 \<and> ListKVStoresPaginator.cursor l1 = ''c1''"
    by (simp add: NewListKVStoresPaginator_def ListKVStoresPaginator_Stores_def
          ListKVStoresPaginator_Err_def)
  from t h2 n2 have b: "r2 = Returned True \<and> k2 = ?c''
      \<and> keys l2 = [''k1'', ''k2'']
      \<and> ListKVStoreKeysPaginator.err l2 = None
      \<and> ListKVStoreKeysPaginator.finished l2 \<and> ListKVStoreKeysPaginator.cursor l2 = ''''"
    by (simp add: NewListKVStoreKeysPaginator_def ListKVStoreKeysPaginator_Keys_def
          ListKVStoreKeysPaginator_Err_def)
  have i1: "ListKVStoresPaginator.input l1 = Some ?i"
    using n1 h1
    by (auto simp: ListKVStoresPaginator_Next_def NewListKVStoresPaginator_def Let_def
          split: if_splits)
  have i2: "ListKVStoreKeysPaginator.input l2 = Some ?j"
    using n2 h2
    by (auto simp: ListKVStoreKeysPaginator_Next_def NewListKVStoreKeysPaginator_def Let_def
          split: if_splits)
  from a i1 n1 have A: "ListKVStoresPaginator_Next ?D ?c ?l
     = (Returned True,
        \<lparr>ListKVStoresPaginator.cursor = ''c1'',
         ListKVStoresPaginator.err = None,
         ListKVStoresPaginator.finished = False,
         ListKVStoresPaginator.input = Some ?i,
         stores = [\<lparr>CreatedAt = None, KVStore.ID = ''s1'', KVStore.Name = ''a'',
                    UpdatedAt = None\<rparr>]\<rparr>, ?c')"
    by (cases l1) simp
  from b i2 n2 have B: "ListKVStoreKeysPaginator_Next ?D' ?c ?k
     = (Returned True,
        \<lparr>ListKVStoreKeysPaginator.cursor = '''',
         ListKVStoreKeysPaginator.err = None,
         ListKVStoreKeysPaginator.finished = True,
         ListKVStoreKeysPaginator.input = Some ?j,
         keys = [''k1'', ''k2'']\<rparr>, ?c'')"
    by (cases l2) simp
  from A B show ?thesis by simp
qed

text \<open>
  Claim C3. For a paginator that is not finished, when the list call succeeds \<open>Next\<close>
  is to store the returned items as the current page, finish or store the next cursor,
  and return true. The code does so when the call returns a response, as shown above. It
  does not when the call succeeds without one: on a response whose body is \<open>null\<close> the
  decoder reports no error and leaves the response nil, the list call returns nil with a
  nil error, and \<open>Next\<close>, which reads \<open>o.Data\<close> without a nil check, panics: it stores no
  page, neither finishes nor returns, and records no error. This holds for both
  paginators.
\<close>

theorem Next_nil_response_panics:
  "ListKVStores decode_null
       (scripted_client [Inr \<lparr>StatusCode = 200, Body = Reader ''null''\<rparr>])
       (Some \<lparr>ListKVStoresInput.Cursor = '''', ListKVStoresInput.Limit = 0\<rparr>)
     = ((None, None),
        \<lparr>transport = scripted, tstate = [],
         calls = [Get ''/resources/stores/kv'' (Some \<lparr>Params = Map.empty, Body = None\<rparr>)]\<rparr>)
   \<and> ListKVStoresPaginator_Next decode_null
       (scripted_client [Inr \<lparr>StatusCode = 200, Body = Reader ''null''\<rparr>])
       (NewListKVStoresPaginator
          (Some \<lparr>ListKVStoresInput.Cursor = '''', ListKVStoresInput.Limit = 0\<rparr>))
     = (Panicked,
        \<lparr>ListKVStoresPaginator.cursor = '''',
         ListKVStoresPaginator.err = None,
         ListKVStoresPaginator.finished = False,
         ListKVStoresPaginator.input =
           Some \<lparr>ListKVStoresInput.Cursor = '''', ListKVStoresInput.Limit = 0\<rparr>,
         stores = []\<rparr>,
        \<lparr>transport = scripted, tstate = [],
         calls = [Get ''/resources/stores/kv'' (Some \<lparr>Params = Map.empty, Body = None\<rparr>)]\<rparr>)
   \<and> ListKVStoreKeys decode_null
       (scripted_client [Inr \<lparr>StatusCode = 200, Body = Reader ''null''\<rparr>])
       \<lparr>ListKVStoreKeysInput.Cursor = '''', ListKVStoreKeysInput.ID = ''s1'',
        ListKVStoreKeysInput.Limit = 0\<rparr>
     = ((None, None),
        \<lparr>transport = scripted, tstate = [],
         calls = [Get ''/resources/stores/kv/s1/keys''
                    (Some \<lparr>Params = Map.empty, Body = None\<rparr>)]\<rparr>)
   \<and> ListKVStoreKeysPaginator_Next decode_null
       (scripted_client [Inr \<lparr>StatusCode = 200, Body = Reader ''null''\<rparr>])
       (NewListKVStoreKeysPaginator
          (Some \<lparr>ListKVStoreKeysInput.Cursor = '''', ListKVStoreKeysInput.ID = ''s1'',
                 ListKVStoreKeysInput.Limit = 0\<rparr>))
     = (Panicked,
        \<lparr>ListKVStoreKeysPaginator.cursor = '''',
         ListKVStoreKeysPaginator.err = None,
         ListKVStoreKeysPaginator.finished = False,
         ListKVStoreKeysPaginator.input =
           Some \<lparr>ListKVStoreKeysInput.Cursor = '''', ListKVStoreKeysInput.ID = ''s1'',
                 ListKVStoreKeysInput.Limit = 0\<rparr>,
         keys = []\<rparr>,
        \<lparr>transport = scripted, tstate = [],
         calls = [Get ''/resources/stores/kv/s1/keys''
                    (Some \<lparr>Params = Map.empty, Body = None\<rparr>)]\<rparr>)"
  by (simp add: ListKVStoresPaginator_Next_def ListKVStoreKeysPaginator_Next_def
        ListKVStores_def ListKVStoreKeys_def ListKVStoresInput_formatFilters_def
        ListKVStoreKeysInput_formatFilters_def Client_Get_def Client_Request_def
        scripted_client_def NewListKVStoresPaginator_def NewListKVStoreKeysPaginator_def
        decode_null_def)

section \<open>A paginator over a scripted transport\<close>

lemma Next_scripted_step:
  assumes "\<not> ListKVStoresPaginator.finished l"
    and "ListKVStoresPaginator.input l = Some i"
    and "transport c = scripted"
    and "tstate c = Inr \<lparr>StatusCode = s, Body = b\<rparr> # rs"
    and "D b = Inr (Some out)"
  shows "ListKVStoresPaginator_Next D c l
    = (Returned True,
       (if map_index (ListKVStoresResponse.Meta out) ''next_cursor'' = ''''
        then l\<lparr>ListKVStoresPaginator.input :=
                  Some (i\<lparr>ListKVStoresInput.Cursor := ListKVStoresPaginator.cursor l\<rparr>),
                stores := ListKVStoresResponse.Data out,
                ListKVStoresPaginator.finished := True\<rparr>
        else l\<lparr>ListKVStoresPaginator.input :=
                  Some (i\<lparr>ListKVStoresInput.Cursor := ListKVStoresPaginator.cursor l\<rparr>),
                stores := ListKVStoresResponse.Data out,
                ListKVStoresPaginator.cursor :=
                  map_index (ListKVStoresResponse.Meta out) ''next_cursor''\<rparr>),
       c\<lparr>tstate := rs,
         calls := calls c @
           [Get ''/resources/stores/kv''
              (Some \<lparr>Params = ListKVStoresInput_formatFilters
                                (Some (i\<lparr>ListKVStoresInput.Cursor :=
                                          ListKVStoresPaginator.cursor l\<rparr>)),
                     Body = None\<rparr>)]\<rparr>)"
  using assms
  by (simp add: ListKVStoresPaginator_Next_def ListKVStores_def Client_Get_def
        Client_Request_def Let_def)

text \<open>
  Claim C4. Let the transport be scripted with three successful list responses whose
  decoded \<open>next_cursor\<close> values are \<open>c1\<close>, \<open>c2\<close> and the empty string, and start from a
  new paginator. Then the first three \<open>Next\<close> calls return true and the fourth returns
  false; after each of the first three, \<open>Stores\<close> is the page of that response; the
  cursor submitted by the first call is empty, the second submits \<open>c1\<close> and the third
  \<open>c2\<close>, as the input of each call and as the logged requests show; and the fourth call
  makes no request.
\<close>

theorem paginator_round_trip:
  assumes "D b1 = Inr (Some \<lparr>ListKVStoresResponse.Data = p1, ListKVStoresResponse.Meta = m1\<rparr>)"
    and "D b2 = Inr (Some \<lparr>ListKVStoresResponse.Data = p2, ListKVStoresResponse.Meta = m2\<rparr>)"
    and "D b3 = Inr (Some \<lparr>ListKVStoresResponse.Data = p3, ListKVStoresResponse.Meta = m3\<rparr>)"
    and "map_index m1 ''next_cursor'' = ''c1''"
    and "map_index m2 ''next_cursor'' = ''c2''"
    and "map_index m3 ''next_cursor'' = ''''"
  shows "case ListKVStoresPaginator_Next D
                (scripted_client [Inr \<lparr>StatusCode = s1, Body = b1\<rparr>,
                                  Inr \<lparr>StatusCode = s2, Body = b2\<rparr>,
                                  Inr \<lparr>StatusCode = s3, Body = b3\<rparr>])
                (NewListKVStoresPaginator (Some i)) of
           (r1, l1, k1) \<Rightarrow>
         case ListKVStoresPaginator_Next D k1 l1 of
           (r2, l2, k2) \<Rightarrow>
         case ListKVStoresPaginator_Next D k2 l2 of
           (r3, l3, k3) \<Rightarrow>
         case ListKVStoresPaginator_Next D k3 l3 of
           (r4, l4, k4) \<Rightarrow>
             r1 = Returned True \<and> r2 = Returned True \<and> r3 = Returned True
             \<and> r4 = Returned False
             \<and> ListKVStoresPaginator_Stores l1 = p1
             \<and> ListKVStoresPaginator_Stores l2 = p2
             \<and> ListKVStoresPaginator_Stores l3 = p3
             \<and> ListKVStoresPaginator_Stores l4 = []
             \<and> ListKVStoresPaginator.input l1 = Some (i\<lparr>ListKVStoresInput.Cursor := ''''\<rparr>)
             \<and> ListKVStoresPaginator.input l2 = Some (i\<lparr>ListKVStoresInput.Cursor := ''c1''\<rparr>)
             \<and> ListKVStoresPaginator.input l3 = Some (i\<lparr>ListKVStoresInput.Cursor := ''c2''\<rparr>)
             \<and> ListKVStoresPaginator_Err l4 = None
             \<and> calls k3 =
                 [Get ''/resources/stores/kv''
                    (Some \<lparr>Params = ListKVStoresInput_formatFilters
                                      (Some (i\<lparr>ListKVStoresInput.Cursor := ''''\<rparr>)),
                           Body = None\<rparr>),
                  Get ''/resources/stores/kv''
                    (Some \<lparr>Params = ListKVStoresInput_formatFilters
                                      (Some (i\<lparr>ListKVStoresInput.Cursor := ''c1''\<rparr>)),
                           Body = None\<rparr>),
                  Get ''/resources/stores/kv''
                    (Some \<lparr>Params = ListKVStoresInput_formatFilters
                                      (Some (i\<lparr>ListKVStoresInput.Cursor := ''c2''\<rparr>)),
                           Body = None\<rparr>)]
             \<and> k4 = k3"
proof -
  let ?c0 = "scripted_client [Inr \<lparr>StatusCode = s1, Body = b1\<rparr>,
                              Inr \<lparr>StatusCode = s2, Body = b2\<rparr>,
                              Inr \<lparr>StatusCode = s3, Body = b3\<rparr>]"
  let ?l0 = "NewListKVStoresPaginator (Some i)"
  obtain r1 l1 k1 where n1: "ListKVStoresPaginator_Next D ?c0 ?l0 = (r1, l1, k1)"
    by (cases "ListKVStoresPaginator_Next D ?c0 ?l0")
  have s1: "r1 = Returned True \<and> stores l1 = p1 \<and> ListKVStoresPaginator.cursor l1 = ''c1''
      \<and> \<not> ListKVStoresPaginator.finished l1 \<and> ListKVStoresPaginator.err l1 = None
      \<and> ListKVStoresPaginator.input l1 = Some (i\<lparr>ListKVStoresInput.Cursor := ''''\<rparr>)
      \<and> transport k1 = scripted
      \<and> tstate k1 = [Inr \<lparr>StatusCode = s2, Body = b2\<rparr>, Inr \<lparr>StatusCode = s3, Body = b3\<rparr>]
      \<and> calls k1 = [Get ''/resources/stores/kv''
                      (Some \<lparr>Params = ListKVStoresInput_formatFilters
                                        (Some (i\<lparr>ListKVStoresInput.Cursor := ''''\<rparr>)),
                             Body = None\<rparr>)]"
    using n1 assms(1,4)
      Next_scripted_step [of ?l0 i ?c0 s1 b1 _ D
         "\<lparr>ListKVStoresResponse.Data = p1, ListKVStoresResponse.Meta = m1\<rparr>"]
    by (auto simp: NewListKVStoresPaginator_def scripted_client_def)
  obtain r2 l2 k2 where n2: "ListKVStoresPaginator_Next D k1 l1 = (r2, l2, k2)"
    by (cases "ListKVStoresPaginator_Next D k1 l1")
  have s2: "r2 = Returned True \<and> stores l2 = p2 \<and> ListKVStoresPaginator.cursor l2 = ''c2''
      \<and> \<not> ListKVStoresPaginator.finished l2 \<and> ListKVStoresPaginator.err l2 = None
      \<and> ListKVStoresPaginator.input l2 = Some (i\<lparr>ListKVStoresInput.Cursor := ''c1''\<rparr>)
      \<and> transport k2 = scripted
      \<and> tstate k2 = [Inr \<lparr>StatusCode = s3, Body = b3\<rparr>]
      \<and> calls k2 = calls k1 @ [Get ''/resources/stores/kv''
                      (Some \<lparr>Params = ListKVStoresInput_formatFilters
                                        (Some (i\<lparr>ListKVStoresInput.Cursor := ''c1''\<rparr>)),
                             Body = None\<rparr>)]"
    using n2 s1 assms(2,5)
      Next_scripted_step [of l1 "i\<lparr>ListKVStoresInput.Cursor := ''''\<rparr>" k1 s2 b2 _ D
         "\<lparr>ListKVStoresResponse.Data = p2, ListKVStoresResponse.Meta = m2\<rparr>"]
    by auto
  obtain r3 l3 k3 where n3: "ListKVStoresPaginator_Next D k2 l2 = (r3, l3, k3)"
    by (cases "ListKVStoresPaginator_Next D k2 l2")
  have s3: "r3 = Returned True \<and> stores l3 = p3
      \<and> ListKVStoresPaginator.finished l3 \<and> ListKVStoresPaginator.err l3 = None
      \<and> ListKVStoresPaginator.input l3 = Some (i\<lparr>ListKVStoresInput.Cursor := ''c2''\<rparr>)
      \<and> calls k3 = calls k2 @ [Get ''/resources/stores/kv''
                      (Some \<lparr>Params = ListKVStoresInput_formatFilters
                                        (Some (i\<lparr>ListKVStoresInput.Cursor := ''c2''\<rparr>)),
                             Body = None\<rparr>)]"
    using n3 s2 assms(3,6)
      Next_scripted_step [of l2 "i\<lparr>ListKVStoresInput.Cursor := ''c1''\<rparr>" k2 s3 b3 _ D
         "\<lparr>ListKVStoresResponse.Data = p3, ListKVStoresResponse.Meta = m3\<rparr>"]
    by auto
  have n4: "ListKVStoresPaginator_Next D k3 l3 = (Returned False, l3\<lparr>stores := []\<rparr>, k3)"
    using s3 by (simp add: ListKVStoresPaginator_Next_def)
  show ?thesis
    using n1 n2 n3 n4 s1 s2 s3
    by (simp add: ListKVStoresPaginator_Stores_def ListKVStoresPaginator_Err_def)
qed

theorem paginator_round_trip_witness:
  "case ListKVStoresPaginator_Next
          (decode_table
             [(''p1'', \<lparr>ListKVStoresResponse.Data =
                         [\<lparr>CreatedAt = None, KVStore.ID = ''s1'', KVStore.Name = ''a'',
                           UpdatedAt = None\<rparr>],
                       ListKVStoresResponse.Meta = [''next_cursor'' \<mapsto> ''c1'']\<rparr>),
              (''p2'', \<lparr>ListKVStoresResponse.Data =
                         [\<lparr>CreatedAt = None, KVStore.ID = ''s2'', KVStore.Name = ''b'',
                           UpdatedAt = None\<rparr>],
                       ListKVStoresResponse.Meta = [''next_cursor'' \<mapsto> ''c2'']\<rparr>),
              (''p3'', \<lparr>ListKVStoresResponse.Data = [],
                       ListKVStoresResponse.Meta = Map.empty\<rparr>)])
          (scripted_client [Inr \<lparr>StatusCode = 200, Body = Reader ''p1''\<rparr>,
                            Inr \<lparr>StatusCode = 200, Body = Reader ''p2''\<rparr>,
                            Inr \<lparr>StatusCode = 200, Body = Reader ''p3''\<rparr>])
          (NewListKVStoresPaginator
             (Some \<lparr>ListKVStoresInput.Cursor = ''stale'', ListKVStoresInput.Limit = 1\<rparr>)) of
     (r1, l1, k1) \<Rightarrow>
   case ListKVStoresPaginator_Next
          (decode_table
             [(''p1'', \<lparr>ListKVStoresResponse.Data =
                         [\<lparr>CreatedAt = None, KVStore.ID = ''s1'', KVStore.Name = ''a'',
                           UpdatedAt = None\<rparr>],
                       ListKVStoresResponse.Meta = [''next_cursor'' \<mapsto> ''c1'']\<rparr>),
              (''p2'', \<lparr>ListKVStoresResponse.Data =
                         [\<lparr>CreatedAt = None, KVStore.ID = ''s2'', KVStore.Name = ''b'',
                           UpdatedAt = None\<rparr>],
                       ListKVStoresResponse.Meta = [''next_cursor'' \<mapsto> ''c2'']\<rparr>),
              (''p3'', \<lparr>ListKVStoresResponse.Data = [],
                       ListKVStoresResponse.Meta = Map.empty\<rparr>)]) k1 l1 of
     (r2, l2, k2) \<Rightarrow>
       r1 = Returned True \<and> r2 = Returned True
       \<and> ListKVStoresPaginator_Stores l1
           = [\<lparr>CreatedAt = None, KVStore.ID = ''s1'', KVStore.Name = ''a'', UpdatedAt = None\<rparr>]
       \<and> ListKVStoresPaginator_Stores l2
           = [\<lparr>CreatedAt = None, KVStore.ID = ''s2'', KVStore.Name = ''b'', UpdatedAt = None\<rparr>]
       \<and> ListKVStoresPaginator.input l1
           = Some \<lparr>ListKVStoresInput.Cursor = '''', ListKVStoresInput.Limit = 1\<rparr>
       \<and> ListKVStoresPaginator.input l2
           = Some \<lparr>ListKVStoresInput.Cursor = ''c1'', ListKVStoresInput.Limit = 1\<rparr>"
proof -
  let ?o1 = "\<lparr>ListKVStoresResponse.Data =
                [\<lparr>CreatedAt = None, KVStore.ID = ''s1'', KVStore.Name = ''a'', UpdatedAt = None\<rparr>],
              ListKVStoresResponse.Meta = [''next_cursor'' \<mapsto> ''c1'']\<rparr>"
  let ?o2 = "\<lparr>ListKVStoresResponse.Data =
                [\<lparr>CreatedAt = None, KVStore.ID = ''s2'', KVStore.Name = ''b'', UpdatedAt = None\<rparr>],
              ListKVStoresResponse.Meta = [''next_cursor'' \<mapsto> ''c2'']\<rparr>"
  let ?o3 = "\<lparr>ListKVStoresResponse.Data = [], ListKVStoresResponse.Meta = Map.empty\<rparr>"
  let ?D = "decode_table [(''p1'', ?o1), (''p2'', ?o2), (''p3'', ?o3)]"
  let ?c0 = "scripted_client [Inr \<lparr>StatusCode = 200, Body = Reader ''p1''\<rparr>,
                              Inr \<lparr>StatusCode = 200, Body = Reader ''p2''\<rparr>,
                              Inr \<lparr>StatusCode = 200, Body = Reader ''p3''\<rparr>]"
  let ?l0 = "NewListKVStoresPaginator
               (Some \<lparr>ListKVStoresInput.Cursor = ''stale'', ListKVStoresInput.Limit = 1\<rparr>)"
  have d: "?D (Reader ''p1'') = Inr (Some ?o1)" "?D (Reader ''p2'') = Inr (Some ?o2)"
      "?D (Reader ''p3'') = Inr (Some ?o3)"
    by (simp_all add: decode_table_def)
  have m: "map_index [''next_cursor'' \<mapsto> ''c1''] ''next_cursor'' = ''c1''"
      "map_index [''next_cursor'' \<mapsto> ''c2''] ''next_cursor'' = ''c2''"
      "map_index Map.empty ''next_cursor'' = ''''"
    by (simp_all add: map_index_def)
  note t = paginator_round_trip
             [where D = ?D and ?b1.0 = "Reader ''p1''" and ?b2.0 = "Reader ''p2''"
                and ?b3.0 = "Reader ''p3''"
                and ?s1.0 = 200 and ?s2.0 = 200 and ?s3.0 = 200
                and i = "\<lparr>ListKVStoresInput.Cursor = ''stale'', ListKVStoresInput.Limit = 1\<rparr>",
              OF d m]
  obtain r1 l1 k1 where n1: "ListKVStoresPaginator_Next ?D ?c0 ?l0 = (r1, l1, k1)"
    by (cases "ListKVStoresPaginator_Next ?D ?c0 ?l0")
  obtain r2 l2 k2 where n2: "ListKVStoresPaginator_Next ?D k1 l1 = (r2, l2, k2)"
    by (cases "ListKVStoresPaginator_Next ?D k1 l1")
  obtain r3 l3 k3 where n3: "ListKVStoresPaginator_Next ?D k2 l2 = (r3, l3, k3)"
    by (cases "ListKVStoresPaginator_Next ?D k2 l2")
  obtain r4 l4 k4 where n4: "ListKVStoresPaginator_Next ?D k3 l3 = (r4, l4, k4)"
    by (cases "ListKVStoresPaginator_Next ?D k3 l3")
  from t n1 n2 n3 n4 show ?thesis by simp
qed

end
